theory Spec2Isabelle
  imports Main "HOL-Library.AList"
begin

section \<open>Conference Central: the request handlers of conference.py\<close>

text \<open>
  A shallow embedding of the handlers of \<^verbatim>\<open>conference.py\<close>. The datastore, the
  memcache and the task queue are collaborators of the program; they are explicit
  values that a handler takes and returns. An exception is a value of \<open>error\<close>.
\<close>

subsection \<open>Exceptions\<close>

datatype error =
    UnauthorizedException
  | BadRequestException
  | NotFoundException
  | ConflictException
  | AttributeError
  | ValueError
  | BadValueError
  | ProtocolBufferDecodeError

subsection \<open>Keys\<close>

text \<open>
  A datastore key is a path of kinds and ids. The program builds four shapes:
  \<^verbatim>\<open>ndb.Key(Profile, user_id)\<close>, a Conference key below a Profile key, a Session key
  below a Conference key and \<^verbatim>\<open>ndb.Key(Speaker, s_id)\<close>.
\<close>

datatype key =
    ProfileKey string
  | ConferenceKey string nat
  | SessionKey string nat nat
  | SpeakerKey nat

text \<open>\<^verbatim>\<open>Session.query(ancestor=k)\<close> ranges over the keys that have \<open>k\<close> on their path.\<close>

fun has_ancestor :: "key \<Rightarrow> key \<Rightarrow> bool" where
  "has_ancestor a (ProfileKey u) = (a = ProfileKey u)"
| "has_ancestor a (SpeakerKey i) = (a = SpeakerKey i)"
| "has_ancestor a (ConferenceKey u i) = (a = ConferenceKey u i \<or> a = ProfileKey u)"
| "has_ancestor a (SessionKey u i j) =
     (a = SessionKey u i j \<or> a = ConferenceKey u i \<or> a = ProfileKey u)"

text \<open>
  A websafe key is a string, and the program keeps and compares it as a string: the
  attending list and the wishlist of a profile and the \<^verbatim>\<open>speakerKey\<close> of a session
  hold the strings of the requests. \<^verbatim>\<open>ndb.Key(urlsafe=s)\<close> decodes a string; this is
  library code, so the decoder is a parameter \<open>urlsafe\<close> of every handler that
  decodes, with \<open>None\<close> for a string that ndb refuses (it raises then, a
  \<^verbatim>\<open>TypeError\<close> or a \<^verbatim>\<open>ProtocolBufferDecodeError\<close>; the model has one value for both).
  Nothing is assumed of the decoder. In particular it need not be one-to-one: ndb
  pads a string before it decodes it, so a key has several spellings.
\<close>

type_synonym decoder = "string \<Rightarrow> key option"

subsection \<open>Entities\<close>

text \<open>
  Modelled from the spec: the entity and form declarations of \<^verbatim>\<open>models.py\<close> are not
  among the sources. The records below hold the attributes that \<^verbatim>\<open>conference.py\<close>
  reads and writes, under the names it uses, with the types of the data model of the
  specification (Profile, Conference, Session, Speaker).
\<close>

datatype date = Date (year_of: int) (month_of: int) (day_of: int)

record profile =
  displayName :: string
  mainEmail :: string
  teeShirtSize :: string
  conferenceKeysToAttend :: "string list"
  sessionWishlist :: "string list"

record conference =
  name :: string
  organizerUserId :: string
  topics :: "string list"
  city :: string
  startDate :: "date option"
  month :: int
  endDate :: "date option"
  maxAttendees :: int
  seatsAvailable :: int

record session =
  session_name :: "string option"
  speakerKey :: "string option"
  typeOfSession :: "string option"
  duration :: int

record speaker =
  speaker_name :: "string option"
  speaker_bio :: "string option"
  speaker_email :: "string option"

datatype entity =
    ProfileE profile
  | ConferenceE conference
  | SessionE session
  | SpeakerE speaker

text \<open>
  The datastore holds one table per kind, so an entity is always found under a key of
  its own kind. Conferences and sessions are lists of rows because the program
  queries them; a query returns the matching rows in the order of the table.
\<close>

record datastore =
  profiles :: "string \<rightharpoonup> profile"
  conferences :: "((string \<times> nat) \<times> conference) list"
  sessions :: "((string \<times> nat \<times> nat) \<times> session) list"
  speakers :: "nat \<rightharpoonup> speaker"

text \<open>\<^verbatim>\<open>key.get()\<close>\<close>

fun key_get :: "datastore \<Rightarrow> key \<Rightarrow> entity option" where
  "key_get ds (ProfileKey u) = map_option ProfileE (profiles ds u)"
| "key_get ds (ConferenceKey u i) = map_option ConferenceE (map_of (conferences ds) (u, i))"
| "key_get ds (SessionKey u i j) = map_option SessionE (map_of (sessions ds) (u, i, j))"
| "key_get ds (SpeakerKey i) = map_option SpeakerE (speakers ds i)"

text \<open>
  \<^verbatim>\<open>entity.put()\<close>: the entity is written under its own key. ndb refuses an entity
  whose key is of another kind, so the last equation is never reached by the program;
  it only makes the function total.
\<close>

fun entity_put :: "datastore \<Rightarrow> key \<Rightarrow> entity \<Rightarrow> datastore" where
  "entity_put ds (ProfileKey u) (ProfileE p) = ds\<lparr>profiles := (profiles ds)(u \<mapsto> p)\<rparr>"
| "entity_put ds (ConferenceKey u i) (ConferenceE c) =
     ds\<lparr>conferences := AList.update (u, i) c (conferences ds)\<rparr>"
| "entity_put ds (SessionKey u i j) (SessionE s) =
     ds\<lparr>sessions := AList.update (u, i, j) s (sessions ds)\<rparr>"
| "entity_put ds (SpeakerKey i) (SpeakerE s) = ds\<lparr>speakers := (speakers ds)(i \<mapsto> s)\<rparr>"
| "entity_put ds _ _ = ds"

subsection \<open>Users and profiles\<close>

text \<open>
  The result of \<^verbatim>\<open>endpoints.get_current_user()\<close> is a \<open>user option\<close>; \<open>user_id\<close> is
  what \<^verbatim>\<open>utils.getUserId\<close> returns for the user.
\<close>

record user =
  user_id :: string
  email :: string
  nickname :: string

text \<open>\<^verbatim>\<open>str(TeeShirtSize.NOT_SPECIFIED)\<close>\<close>

definition NOT_SPECIFIED :: string where
  "NOT_SPECIFIED = ''NOT_SPECIFIED''"

text \<open>
  \<^verbatim>\<open>_getProfileFromUser\<close>: the profile of the caller, created and written when the
  datastore has none. A model instance knows its key (\<^verbatim>\<open>prof.key\<close>), so the result is
  the pair of the key and the profile.
\<close>

definition getProfileFromUser ::
  "datastore \<Rightarrow> user option \<Rightarrow> datastore \<times> (error + key \<times> profile)" where
  "getProfileFromUser ds cur =
     (case cur of
        None \<Rightarrow> (ds, Inl UnauthorizedException)
      | Some u \<Rightarrow>
          (case profiles ds (user_id u) of
             Some profile \<Rightarrow> (ds, Inr (ProfileKey (user_id u), profile))
           | None \<Rightarrow>
               (let profile = \<lparr>displayName = nickname u, mainEmail = email u,
                                teeShirtSize = NOT_SPECIFIED,
                                conferenceKeysToAttend = [], sessionWishlist = []\<rparr>
                in (entity_put ds (ProfileKey (user_id u)) (ProfileE profile),
                    Inr (ProfileKey (user_id u), profile)))))"

subsection \<open>Registration\<close>

text \<open>
  \<^verbatim>\<open>@ndb.transactional(xg=True)\<close>: the writes of the body are committed when it
  returns and dropped when it raises.
\<close>

definition transactional ::
  "(datastore \<Rightarrow> datastore \<times> (error + 'a)) \<Rightarrow> datastore \<Rightarrow> datastore \<times> (error + 'a)" where
  "transactional body ds =
     (case body ds of
        (ds', Inl e) \<Rightarrow> (ds, Inl e)
      | (ds', Inr v) \<Rightarrow> (ds', Inr v))"

text \<open>
  The body of \<^verbatim>\<open>_conferenceRegistration\<close>. The conference is read under the key
  that the string \<open>wsck\<close> decodes to, and written back under that key
  (\<^verbatim>\<open>conf.put()\<close>); the attending list is tested and changed with the string itself.
  \<open>conf.seatsAvailable\<close> raises \<open>AttributeError\<close> on an entity that is not a
  Conference. In the last branch \<^verbatim>\<open>conf.put()\<close> writes back the entity that was read.
\<close>

definition conferenceRegistration_body ::
  "decoder \<Rightarrow> user option \<Rightarrow> string \<Rightarrow> bool \<Rightarrow> datastore \<Rightarrow> datastore \<times> (error + bool)" where
  "conferenceRegistration_body urlsafe cur wsck reg ds0 =
     (case getProfileFromUser ds0 cur of
        (ds, Inl e) \<Rightarrow> (ds, Inl e)
      | (ds, Inr (p_key, prof)) \<Rightarrow>
        (case urlsafe wsck of
           None \<Rightarrow> (ds, Inl ProtocolBufferDecodeError)
         | Some c_key \<Rightarrow>
          (case key_get ds c_key of
             None \<Rightarrow> (ds, Inl NotFoundException)
           | Some conf \<Rightarrow>
               if reg then
                 if wsck \<in> set (conferenceKeysToAttend prof) then (ds, Inl ConflictException)
                 else
                   (case conf of
                      ConferenceE c \<Rightarrow>
                        if seatsAvailable c \<le> 0 then (ds, Inl ConflictException)
                        else
                          (let prof' = prof\<lparr>conferenceKeysToAttend :=
                                              conferenceKeysToAttend prof @ [wsck]\<rparr>;
                               c' = c\<lparr>seatsAvailable := seatsAvailable c - 1\<rparr>
                           in (entity_put (entity_put ds p_key (ProfileE prof'))
                                 c_key (ConferenceE c'), Inr True))
                    | _ \<Rightarrow> (ds, Inl AttributeError))
               else
                 if wsck \<in> set (conferenceKeysToAttend prof) then
                   (case conf of
                      ConferenceE c \<Rightarrow>
                        (let prof' = prof\<lparr>conferenceKeysToAttend :=
                                            remove1 wsck (conferenceKeysToAttend prof)\<rparr>;
                             c' = c\<lparr>seatsAvailable := seatsAvailable c + 1\<rparr>
                         in (entity_put (entity_put ds p_key (ProfileE prof'))
                               c_key (ConferenceE c'), Inr True))
                    | _ \<Rightarrow> (ds, Inl AttributeError))
                 else
                   (entity_put (entity_put ds p_key (ProfileE prof)) c_key conf, Inr False))))"

definition conferenceRegistration ::
  "decoder \<Rightarrow> datastore \<Rightarrow> user option \<Rightarrow> string \<Rightarrow> bool \<Rightarrow> datastore \<times> (error + bool)" where
  "conferenceRegistration urlsafe ds cur wsck reg =
     transactional (conferenceRegistration_body urlsafe cur wsck reg) ds"

definition registerForConference ::
  "decoder \<Rightarrow> datastore \<Rightarrow> user option \<Rightarrow> string \<Rightarrow> datastore \<times> (error + bool)" where
  "registerForConference urlsafe ds cur wsck = conferenceRegistration urlsafe ds cur wsck True"

definition unregisterFromConference ::
  "decoder \<Rightarrow> datastore \<Rightarrow> user option \<Rightarrow> string \<Rightarrow> datastore \<times> (error + bool)" where
  "unregisterFromConference urlsafe ds cur wsck = conferenceRegistration urlsafe ds cur wsck False"



subsection \<open>Query filters\<close>

text \<open>The dictionaries \<^verbatim>\<open>OPERATORS\<close> and \<^verbatim>\<open>FIELDS\<close>.\<close>

definition OPERATORS :: "(string \<times> string) list" where
  "OPERATORS = [(''EQ'', ''=''), (''GT'', ''>''), (''GTEQ'', ''>=''), (''LT'', ''<''),
                (''LTEQ'', ''<=''), (''NE'', ''!='')]"

definition FIELDS :: "(string \<times> string) list" where
  "FIELDS = [(''CITY'', ''city''), (''TOPIC'', ''topics''), (''MONTH'', ''month''),
             (''MAX_ATTENDEES'', ''maxAttendees'')]"

text \<open>
  \<^verbatim>\<open>d[k]\<close> for a key that may be \<^verbatim>\<open>None\<close>: \<open>None\<close> is the \<^verbatim>\<open>KeyError\<close>.
\<close>

definition dict_lookup :: "(string \<times> string) list \<Rightarrow> string option \<Rightarrow> string option" where
  "dict_lookup d k = (case k of None \<Rightarrow> None | Some s \<Rightarrow> map_of d s)"

text \<open>
  A filter of the request (\<^verbatim>\<open>ConferenceQueryForm\<close>: three optional strings) and the
  dictionary \<^verbatim>\<open>filtr\<close> that \<^verbatim>\<open>_formatFilters\<close> builds from it.
\<close>

record conferenceQueryForm =
  field :: "string option"
  operator :: "string option"
  filter_value :: "string option"

record formatted_filter =
  ff_field :: string
  ff_operator :: string
  ff_value :: "string option"

text \<open>The truth value of \<^verbatim>\<open>inequality_field\<close>: \<^verbatim>\<open>None\<close> and the empty string are false.\<close>

definition truthy :: "string option \<Rightarrow> bool" where
  "truthy v = (case v of None \<Rightarrow> False | Some s \<Rightarrow> s \<noteq> [])"

text \<open>
  The loop of \<^verbatim>\<open>_formatFilters\<close>, with \<^verbatim>\<open>inequality_field\<close> and
  \<^verbatim>\<open>formatted_filters\<close> as accumulators.
\<close>

fun formatFilters_loop ::
  "string option \<Rightarrow> formatted_filter list \<Rightarrow> conferenceQueryForm list \<Rightarrow>
   error + (string option \<times> formatted_filter list)" where
  "formatFilters_loop inequality_field formatted_filters [] =
     Inr (inequality_field, formatted_filters)"
| "formatFilters_loop inequality_field formatted_filters (f # fs) =
     (case dict_lookup FIELDS (field f) of
        None \<Rightarrow> Inl BadRequestException
      | Some fld \<Rightarrow>
          (case dict_lookup OPERATORS (operator f) of
             None \<Rightarrow> Inl BadRequestException
           | Some opr \<Rightarrow>
               (let filtr = \<lparr>ff_field = fld, ff_operator = opr, ff_value = filter_value f\<rparr> in
                if opr \<noteq> ''='' then
                  if truthy inequality_field \<and> inequality_field \<noteq> Some fld
                  then Inl BadRequestException
                  else formatFilters_loop (Some fld) (formatted_filters @ [filtr]) fs
                else formatFilters_loop inequality_field (formatted_filters @ [filtr]) fs)))"

definition formatFilters ::
  "conferenceQueryForm list \<Rightarrow> error + (string option \<times> formatted_filter list)" where
  "formatFilters filters = formatFilters_loop None [] filters"

text \<open>
  What the claim about the filters speaks of: a filter whose names are in the
  dictionaries, and a filter with an operator other than \<^verbatim>\<open>=\<close>.
\<close>

definition whitelisted :: "conferenceQueryForm \<Rightarrow> bool" where
  "whitelisted f =
     (dict_lookup FIELDS (field f) \<noteq> None \<and> dict_lookup OPERATORS (operator f) \<noteq> None)"

definition is_inequality :: "conferenceQueryForm \<Rightarrow> bool" where
  "is_inequality f =
     (case dict_lookup OPERATORS (operator f) of None \<Rightarrow> False | Some opr \<Rightarrow> opr \<noteq> ''='')"

subsection \<open>Creating a conference\<close>









subsection \<open>Wishlist\<close>

text \<open>
  \<^verbatim>\<open>_wishlistRegistration\<close> runs outside a transaction: a profile that
  \<^verbatim>\<open>_getProfileFromUser\<close> created stays written when an exception follows. The
  entity is read under the decoded key; the wishlist is tested and changed with the
  string of the request.
\<close>

definition wishlistRegistration ::
  "decoder \<Rightarrow> datastore \<Rightarrow> user option \<Rightarrow> string \<Rightarrow> bool \<Rightarrow> datastore \<times> (error + bool)" where
  "wishlistRegistration urlsafe ds0 cur sessionKey add =
     (case getProfileFromUser ds0 cur of
        (ds, Inl e) \<Rightarrow> (ds, Inl e)
      | (ds, Inr (p_key, prof)) \<Rightarrow>
        (case urlsafe sessionKey of
           None \<Rightarrow> (ds, Inl ProtocolBufferDecodeError)
         | Some s_key \<Rightarrow>
          (case key_get ds s_key of
             None \<Rightarrow> (ds, Inl NotFoundException)
           | Some session \<Rightarrow>
               if add then
                 if sessionKey \<in> set (sessionWishlist prof) then (ds, Inl ConflictException)
                 else
                   (entity_put ds p_key
                      (ProfileE (prof\<lparr>sessionWishlist := sessionWishlist prof @ [sessionKey]\<rparr>)),
                    Inr True)
               else
                 if sessionKey \<in> set (sessionWishlist prof) then
                   (entity_put ds p_key
                      (ProfileE (prof\<lparr>sessionWishlist :=
                                         remove1 sessionKey (sessionWishlist prof)\<rparr>)),
                    Inr True)
                 else (ds, Inl ConflictException))))"

definition addSessionToWishlist ::
  "decoder \<Rightarrow> datastore \<Rightarrow> user option \<Rightarrow> string \<Rightarrow> datastore \<times> (error + bool)" where
  "addSessionToWishlist urlsafe ds cur sessionKey =
     wishlistRegistration urlsafe ds cur sessionKey True"

definition removeSessionFromWishlist ::
  "decoder \<Rightarrow> datastore \<Rightarrow> user option \<Rightarrow> string \<Rightarrow> datastore \<times> (error + bool)" where
  "removeSessionFromWishlist urlsafe ds cur sessionKey =
     wishlistRegistration urlsafe ds cur sessionKey False"

subsection \<open>The memcache: announcement and featured speaker\<close>

text \<open>
  The memcache is a map from cache keys to strings: \<^verbatim>\<open>memcache.set\<close> stores,
  \<^verbatim>\<open>memcache.delete\<close> removes, \<^verbatim>\<open>memcache.get\<close> reads (\<open>None\<close> for a missing entry).
\<close>

type_synonym memcache = "string \<rightharpoonup> string"

definition MEMCACHE_ANNOUNCEMENTS_KEY :: string where
  "MEMCACHE_ANNOUNCEMENTS_KEY = ''RECENT_ANNOUNCEMENTS''"

definition MEMCACHE_FEATURED_SPEAKER_KEY :: string where
  "MEMCACHE_FEATURED_SPEAKER_KEY = ''FEATURED_SPEAKER''"

text \<open>\<^verbatim>\<open>sep.join(xs)\<close>\<close>

fun join :: "string \<Rightarrow> string list \<Rightarrow> string" where
  "join sep [] = []"
| "join sep [x] = x"
| "join sep (x # y # ys) = x @ sep @ join sep (y # ys)"

text \<open>\<^verbatim>\<open>'%s %s' % (a, b)\<close>\<close>

definition format2 :: "string \<Rightarrow> string \<Rightarrow> string" where
  "format2 a b = a @ '' '' @ b"

text \<open>\<^verbatim>\<open>%s\<close> of an optional string: \<^verbatim>\<open>None\<close> prints as \<^verbatim>\<open>None\<close>.\<close>

definition str_of :: "string option \<Rightarrow> string" where
  "str_of v = (case v of None \<Rightarrow> ''None'' | Some s \<Rightarrow> s)"

definition ANNOUNCEMENT_HEAD :: string where
  "ANNOUNCEMENT_HEAD =
     ''Last chance to attend! The following conferences are nearly sold out:''"

definition FEATURED_SPEAKER_HEAD :: string where
  "FEATURED_SPEAKER_HEAD = ''The featured speaker for this conference is: ''"

text \<open>
  The query of \<^verbatim>\<open>_cacheAnnouncement\<close>: the conferences with
  \<^verbatim>\<open>seatsAvailable <= 5\<close> and \<^verbatim>\<open>seatsAvailable > 0\<close>. The program asks for no
  order, and the datastore returns the rows in an order of its own (that of the index
  on \<^verbatim>\<open>seatsAvailable\<close>); \<open>fetch\<close> is this order, a parameter of
  \<^verbatim>\<open>_cacheAnnouncement\<close>.
\<close>

definition nearly_sold_out :: "datastore \<Rightarrow> conference list" where
  "nearly_sold_out ds =
     filter (\<lambda>c. seatsAvailable c \<le> 5 \<and> seatsAvailable c > 0) (map snd (conferences ds))"

definition cacheAnnouncement ::
  "(conference list \<Rightarrow> conference list) \<Rightarrow> datastore \<Rightarrow> memcache \<Rightarrow> memcache \<times> string" where
  "cacheAnnouncement fetch ds mc =
     (let confs = fetch (nearly_sold_out ds) in
      if confs \<noteq> [] then
        (let announcement = format2 ANNOUNCEMENT_HEAD (join '', '' (map name confs))
         in (mc(MEMCACHE_ANNOUNCEMENTS_KEY \<mapsto> announcement), announcement))
      else (mc(MEMCACHE_ANNOUNCEMENTS_KEY := None), []))"

definition getAnnouncement :: "memcache \<Rightarrow> string" where
  "getAnnouncement mc =
     (case mc MEMCACHE_ANNOUNCEMENTS_KEY of
        None \<Rightarrow> []
      | Some announcement \<Rightarrow> if announcement = [] then [] else announcement)"

text \<open>
  The count of \<^verbatim>\<open>_cacheFeaturedSpeaker\<close>: the sessions below the key \<open>confKey\<close> whose
  \<^verbatim>\<open>speakerKey\<close> is the given string.
\<close>

definition session_count :: "datastore \<Rightarrow> key \<Rightarrow> string \<Rightarrow> nat" where
  "session_count ds confKey spKey =
     length (filter (\<lambda>((u, i, j), s). has_ancestor confKey (SessionKey u i j)
                                      \<and> speakerKey s = Some spKey)
               (sessions ds))"

text \<open>
  \<^verbatim>\<open>_cacheFeaturedSpeaker\<close>, with the strings \<open>spKey\<close> and \<open>conferenceKey\<close> of the
  task. \<^verbatim>\<open>speaker.speaker_name\<close> raises \<open>AttributeError\<close> when the key gives no
  entity, or one that is not a Speaker.
\<close>

definition cacheFeaturedSpeaker ::
  "decoder \<Rightarrow> datastore \<Rightarrow> memcache \<Rightarrow> string \<Rightarrow> string \<Rightarrow> memcache \<times> (error + string)" where
  "cacheFeaturedSpeaker urlsafe ds mc spKey conferenceKey =
     (case urlsafe conferenceKey of
        None \<Rightarrow> (mc, Inl ProtocolBufferDecodeError)
      | Some confKey \<Rightarrow>
          (let sessionCount = session_count ds confKey spKey in
           if sessionCount > 1 then
             (case urlsafe spKey of
                None \<Rightarrow> (mc, Inl ProtocolBufferDecodeError)
              | Some sKey \<Rightarrow>
                  (case key_get ds sKey of
                     Some (SpeakerE sp) \<Rightarrow>
                       (let featuredSpeaker =
                              format2 FEATURED_SPEAKER_HEAD (str_of (speaker_name sp))
                        in (mc(MEMCACHE_FEATURED_SPEAKER_KEY \<mapsto> featuredSpeaker),
                            Inr featuredSpeaker))
                   | _ \<Rightarrow> (mc, Inl AttributeError)))
           else (mc, Inr [])))"

definition getFeaturedSpeaker :: "memcache \<Rightarrow> string" where
  "getFeaturedSpeaker mc =
     (case mc MEMCACHE_FEATURED_SPEAKER_KEY of
        None \<Rightarrow> []
      | Some featuredSpeaker \<Rightarrow> if featuredSpeaker = [] then [] else featuredSpeaker)"

subsection \<open>Reading the state, and the states of the examples\<close>

text \<open>
  The attending list of a caller as the datastore has it; a caller without a profile
  attends nothing (this is the list of the profile that \<^verbatim>\<open>_getProfileFromUser\<close>
  would create).
\<close>

definition keysToAttend :: "datastore \<Rightarrow> user \<Rightarrow> string list" where
  "keysToAttend ds u =
     (case profiles ds (user_id u) of None \<Rightarrow> [] | Some p \<Rightarrow> conferenceKeysToAttend p)"

definition wishlist :: "datastore \<Rightarrow> user \<Rightarrow> string list" where
  "wishlist ds u =
     (case profiles ds (user_id u) of None \<Rightarrow> [] | Some p \<Rightarrow> sessionWishlist p)"


definition bob :: user where
  "bob = \<lparr>user_id = ''bob'', email = ''bob@example.com'', nickname = ''Bob''\<rparr>"

definition pycon :: conference where
  "pycon = \<lparr>name = ''PyCon'', organizerUserId = ''alice'', topics = [''Python''],
            city = ''Oslo'', startDate = None, month = 0, endDate = None,
            maxAttendees = 2, seatsAvailable = 2\<rparr>"

definition ds_pycon :: datastore where
  "ds_pycon = \<lparr>profiles = Map.empty, conferences = [((''alice'', 1), pycon)],
               sessions = [], speakers = Map.empty\<rparr>"

definition pycon_key :: key where
  "pycon_key = ConferenceKey ''alice'' 1"

text \<open>
  The decoder of the examples. The PyCon key has two spellings, the way a key of ndb
  is decoded from its string with or without the padding; the other strings are those
  of a session of PyCon, of the speakers and of a second conference.
\<close>

definition urlsafe_example :: decoder where
  "urlsafe_example =
     map_of [(''pycon'', ConferenceKey ''alice'' 1), (''pycon='', ConferenceKey ''alice'' 1),
             (''keynote'', SessionKey ''alice'' 1 1), (''keynote='', SessionKey ''alice'' 1 1),
             (''ada'', SpeakerKey 1), (''ada='', SpeakerKey 1),
             (''jsconf'', ConferenceKey ''alice'' 2), (''grace'', SpeakerKey 2)]"





text \<open>The datastore after Bob has registered for PyCon with the string \<^verbatim>\<open>pycon\<close>.\<close>

definition ds_bob :: datastore where
  "ds_bob = \<lparr>profiles = [''bob'' \<mapsto> \<lparr>displayName = ''Bob'', mainEmail = ''bob@example.com'',
                                      teeShirtSize = NOT_SPECIFIED,
                                      conferenceKeysToAttend = [''pycon''],
                                      sessionWishlist = []\<rparr>],
             conferences = [((''alice'', 1), pycon\<lparr>seatsAvailable := 1\<rparr>)],
             sessions = [], speakers = Map.empty\<rparr>"

text \<open>
  PyCon with its sessions: a keynote and a workshop by the speaker Ada, whose key is
  spelled \<^verbatim>\<open>ada\<close> in both, and in \<open>ds_keynote\<close> the keynote alone.
\<close>

definition ada :: speaker where
  "ada = \<lparr>speaker_name = Some ''Ada'', speaker_bio = None, speaker_email = None\<rparr>"

definition keynote :: session where
  "keynote = \<lparr>session_name = Some ''Keynote'', speakerKey = Some ''ada'',
               typeOfSession = Some ''talk'', duration = 60\<rparr>"

definition workshop :: session where
  "workshop = \<lparr>session_name = Some ''Workshop'', speakerKey = Some ''ada'',
                typeOfSession = Some ''workshop'', duration = 120\<rparr>"

definition ds_keynote :: datastore where
  "ds_keynote = \<lparr>profiles = Map.empty, conferences = [((''alice'', 1), pycon)],
                 sessions = [((''alice'', 1, 1), keynote)], speakers = [1 \<mapsto> ada]\<rparr>"


text \<open>
  A second conference, JSConf, with two talks by the speaker Grace, beside PyCon with
  the two sessions of Ada.
\<close>

definition grace :: speaker where
  "grace = \<lparr>speaker_name = Some ''Grace'', speaker_bio = None, speaker_email = None\<rparr>"

definition jsconf :: conference where
  "jsconf = \<lparr>name = ''JSConf'', organizerUserId = ''alice'', topics = [''Web''],
             city = ''Bergen'', startDate = None, month = 0, endDate = None,
             maxAttendees = 100, seatsAvailable = 100\<rparr>"

definition talk :: "string \<Rightarrow> session" where
  "talk t = \<lparr>session_name = Some t, speakerKey = Some ''grace'',
              typeOfSession = Some ''talk'', duration = 30\<rparr>"

definition ds_two_conferences :: datastore where
  "ds_two_conferences =
     \<lparr>profiles = Map.empty,
      conferences = [((''alice'', 1), pycon), ((''alice'', 2), jsconf)],
      sessions = [((''alice'', 1, 1), keynote), ((''alice'', 2, 1), talk ''Closures''),
                  ((''alice'', 1, 2), workshop), ((''alice'', 2, 2), talk ''Promises'')],
      speakers = [1 \<mapsto> ada, 2 \<mapsto> grace]\<rparr>"

text \<open>
  Four conferences for the announcement, with two, five, no and three seats left,
  and a fifth with many.
\<close>

definition conf_seats :: "string \<Rightarrow> int \<Rightarrow> conference" where
  "conf_seats n k = \<lparr>name = n, organizerUserId = ''alice'', topics = [],
                     city = ''Oslo'', startDate = None, month = 0, endDate = None,
                     maxAttendees = 50, seatsAvailable = k\<rparr>"

definition ds_announce :: datastore where
  "ds_announce =
     \<lparr>profiles = Map.empty,
      conferences = [((''alice'', 1), conf_seats ''A'' 2), ((''alice'', 2), conf_seats ''B'' 5),
                     ((''alice'', 3), conf_seats ''C'' 0), ((''alice'', 4), conf_seats ''D'' 3),
                     ((''alice'', 5), conf_seats ''E'' 40)],
      sessions = [], speakers = Map.empty\<rparr>"

definition ds_sold_out :: datastore where
  "ds_sold_out =
     \<lparr>profiles = Map.empty,
      conferences = [((''alice'', 3), conf_seats ''C'' 0), ((''alice'', 5), conf_seats ''E'' 40)],
      sessions = [], speakers = Map.empty\<rparr>"

subsection \<open>The invariant of the seat counter\<close>

text \<open>
  \<open>held\<close> is the number of strings in the attending list of a user that decode to the
  key \<open>c_key\<close>, and \<open>attendees\<close> the users with one at least. The invariant of a run
  from a conference \<open>c\<close> whose seats equal its capacity: after \<open>n\<close> registrations and
  \<open>m\<close> unregistrations the seats are \<open>maxAttendees c - n + m\<close>, never negative, and the
  attending lists hold \<open>n - m\<close> strings of the conference.
\<close>

definition held :: "decoder \<Rightarrow> key \<Rightarrow> datastore \<Rightarrow> string \<Rightarrow> nat" where
  "held urlsafe c_key ds u =
     (case profiles ds u of
        None \<Rightarrow> 0
      | Some p \<Rightarrow> length (filter (\<lambda>t. urlsafe t = Some c_key) (conferenceKeysToAttend p)))"



subsection \<open>The condition of the filter loop\<close>

text \<open>
  What the loop of \<^verbatim>\<open>_formatFilters\<close> accepts when it starts with
  \<^verbatim>\<open>inequality_field = ineq\<close>: filters with listed names, whose inequalities are all
  on one field, the field \<open>ineq\<close> when there is one. Two lists of filters for the
  examples: a city and two bounds on \<^verbatim>\<open>maxAttendees\<close>, and inequalities on
  \<^verbatim>\<open>maxAttendees\<close> and on \<^verbatim>\<open>month\<close>.
\<close>

definition one_inequality_field :: "string option \<Rightarrow> conferenceQueryForm list \<Rightarrow> bool" where
  "one_inequality_field ineq fs =
     ((\<forall>f\<in>set fs. whitelisted f)
      \<and> (\<forall>f\<in>set fs. \<forall>g\<in>set fs. is_inequality f \<and> is_inequality g \<longrightarrow> field f = field g)
      \<and> (\<forall>x. ineq = Some x \<longrightarrow>
            (\<forall>f\<in>set fs. is_inequality f \<longrightarrow> dict_lookup FIELDS (field f) = Some x)))"

definition filters_one_field :: "conferenceQueryForm list" where
  "filters_one_field =
     [\<lparr>field = Some ''CITY'', operator = Some ''EQ'', filter_value = Some ''London''\<rparr>,
      \<lparr>field = Some ''MAX_ATTENDEES'', operator = Some ''GT'', filter_value = Some ''5''\<rparr>,
      \<lparr>field = Some ''MAX_ATTENDEES'', operator = Some ''LTEQ'', filter_value = Some ''50''\<rparr>]"

definition filters_two_fields :: "conferenceQueryForm list" where
  "filters_two_fields =
     [\<lparr>field = Some ''MAX_ATTENDEES'', operator = Some ''GT'', filter_value = Some ''5''\<rparr>,
      \<lparr>field = Some ''MONTH'', operator = Some ''LT'', filter_value = Some ''6''\<rparr>]"

section \<open>Auxiliary facts\<close>

lemmas registration_defs = registerForConference_def unregisterFromConference_def
  conferenceRegistration_def transactional_def conferenceRegistration_body_def
  getProfileFromUser_def

lemma datastore_eqI:
  "profiles a = profiles b \<Longrightarrow> conferences a = conferences b \<Longrightarrow> sessions a = sessions b
   \<Longrightarrow> speakers a = speakers b \<Longrightarrow> (a::datastore) = b"
  by simp


lemma length_filter_remove1:
  "P x \<Longrightarrow> x \<in> set xs \<Longrightarrow> length (filter P xs) = Suc (length (filter P (remove1 x xs)))"
  by (induction xs) auto





lemma held_entity_put_other:
  "k \<noteq> ProfileKey u \<Longrightarrow> held urlsafe ck (entity_put ds k e) u = held urlsafe ck ds u"
  by (cases "(ds, k, e)" rule: entity_put.cases) (auto simp: held_def)


lemma length_filter_pos: "P x \<Longrightarrow> x \<in> set xs \<Longrightarrow> 0 < length (filter P xs)"
  using length_filter_remove1[of P x xs] by simp



lemma key_get_put_profile:
  "key_get (entity_put ds (ProfileKey u) (ProfileE p)) (ConferenceKey a i)
     = key_get ds (ConferenceKey a i)"
  by simp

lemma key_get_put_conference:
  "key_get (entity_put ds (ConferenceKey b j) (ConferenceE c)) (ConferenceKey a i)
     = (if (a, i) = (b, j) then Some (ConferenceE c) else key_get ds (ConferenceKey a i))"
  by (simp add: update_conv')












text \<open>Facts about the filter loop.\<close>

lemma FIELDS_inj:
  "dict_lookup FIELDS a = Some x \<Longrightarrow> dict_lookup FIELDS b = Some x \<Longrightarrow> a = b"
  by (auto simp: dict_lookup_def FIELDS_def split: option.splits if_splits)

lemma FIELDS_nonempty: "dict_lookup FIELDS a = Some x \<Longrightarrow> x \<noteq> []"
  by (auto simp: dict_lookup_def FIELDS_def split: option.splits if_splits)

lemma oifD1: "one_inequality_field ineq fs \<Longrightarrow> f \<in> set fs \<Longrightarrow> whitelisted f"
  unfolding one_inequality_field_def by blast

lemma oifD2:
  "one_inequality_field ineq fs \<Longrightarrow> f \<in> set fs \<Longrightarrow> g \<in> set fs \<Longrightarrow>
   is_inequality f \<Longrightarrow> is_inequality g \<Longrightarrow> field f = field g"
  unfolding one_inequality_field_def by blast

lemma oifD3:
  "one_inequality_field (Some x) fs \<Longrightarrow> f \<in> set fs \<Longrightarrow> is_inequality f \<Longrightarrow>
   dict_lookup FIELDS (field f) = Some x"
  unfolding one_inequality_field_def by blast

lemma oifI:
  "(\<And>f. f \<in> set fs \<Longrightarrow> whitelisted f) \<Longrightarrow>
   (\<And>f g. f \<in> set fs \<Longrightarrow> g \<in> set fs \<Longrightarrow> is_inequality f \<Longrightarrow> is_inequality g \<Longrightarrow>
       field f = field g) \<Longrightarrow>
   (\<And>x f. ineq = Some x \<Longrightarrow> f \<in> set fs \<Longrightarrow> is_inequality f \<Longrightarrow>
       dict_lookup FIELDS (field f) = Some x) \<Longrightarrow>
   one_inequality_field ineq fs"
  unfolding one_inequality_field_def by blast

lemma oif_inequality:
  assumes w: "whitelisted f" and i: "is_inequality f"
      and l: "dict_lookup FIELDS (field f) = Some fld"
      and ii: "ineq = None \<or> ineq = Some fld"
  shows "one_inequality_field ineq (f # fs) = one_inequality_field (Some fld) fs"
proof
  assume a: "one_inequality_field ineq (f # fs)"
  show "one_inequality_field (Some fld) fs"
  proof (rule oifI)
    fix g assume "g \<in> set fs"
    then have "g \<in> set (f # fs)" by simp
    then show "whitelisted g" by (rule oifD1[OF a])
  next
    fix g h assume "g \<in> set fs" "h \<in> set fs" and gi: "is_inequality g" and hi: "is_inequality h"
    then have "g \<in> set (f # fs)" "h \<in> set (f # fs)" by simp_all
    then show "field g = field h" using gi hi by (rule oifD2[OF a])
  next
    fix x g assume x: "Some fld = Some x" and "g \<in> set fs" and gi: "is_inequality g"
    then have "g \<in> set (f # fs)" by simp
    moreover have "f \<in> set (f # fs)" by simp
    ultimately have "field g = field f" using gi i by (rule oifD2[OF a])
    then have "dict_lookup FIELDS (field g) = Some fld" by (simp only: l)
    then show "dict_lookup FIELDS (field g) = Some x" using x by (simp only:)
  qed
next
  assume a: "one_inequality_field (Some fld) fs"
  have 4: "field g = field f" if "g \<in> set (f # fs)" "is_inequality g" for g
  proof (cases "g = f")
    case True then show ?thesis by (simp only:)
  next
    case False
    then have "g \<in> set fs" using that(1) by simp
    then have "dict_lookup FIELDS (field g) = Some fld" using that(2) by (rule oifD3[OF a])
    then show ?thesis using l by (rule FIELDS_inj)
  qed
  show "one_inequality_field ineq (f # fs)"
  proof (rule oifI)
    fix g assume g: "g \<in> set (f # fs)"
    show "whitelisted g"
    proof (cases "g = f")
      case True then show ?thesis using w by (simp only:)
    next
      case False
      then have "g \<in> set fs" using g by simp
      then show ?thesis by (rule oifD1[OF a])
    qed
  next
    fix g h assume g: "g \<in> set (f # fs)" "is_inequality g"
      and h: "h \<in> set (f # fs)" "is_inequality h"
    have "field g = field f" using g by (rule 4)
    moreover have "field h = field f" using h by (rule 4)
    ultimately show "field g = field h" by (simp only:)
  next
    fix x g assume x: "ineq = Some x" and "g \<in> set (f # fs)" "is_inequality g"
    then have "field g = field f" by (intro 4)
    then have "dict_lookup FIELDS (field g) = Some fld" by (simp only: l)
    moreover have "x = fld" using ii x by auto
    ultimately show "dict_lookup FIELDS (field g) = Some x" by (simp only:)
  qed
qed

lemma oif_Nil: "one_inequality_field ineq []"
  by (simp add: one_inequality_field_def)

lemma oif_not_whitelisted: "\<not> whitelisted f \<Longrightarrow> \<not> one_inequality_field ineq (f # fs)"
  by (simp add: one_inequality_field_def)

lemma oif_equality:
  "whitelisted f \<Longrightarrow> \<not> is_inequality f \<Longrightarrow>
   one_inequality_field ineq (f # fs) = one_inequality_field ineq fs"
  unfolding one_inequality_field_def by auto

lemma oif_clash:
  "is_inequality f \<Longrightarrow> dict_lookup FIELDS (field f) = Some fld \<Longrightarrow> ineq = Some x \<Longrightarrow> x \<noteq> fld
   \<Longrightarrow> \<not> one_inequality_field ineq (f # fs)"
  unfolding one_inequality_field_def by auto

lemma loop_only_bad_request:
  "formatFilters_loop ineq acc fs = Inl e \<Longrightarrow> e = BadRequestException"
  by (induction fs arbitrary: ineq acc) (auto simp: Let_def split: option.splits if_splits)

lemma loop_step_unlisted:
  "\<not> whitelisted f \<Longrightarrow> formatFilters_loop ineq acc (f # fs) = Inl BadRequestException"
  by (auto simp: whitelisted_def split: option.splits)

lemma loop_step_equality:
  "dict_lookup FIELDS (field f) = Some fld \<Longrightarrow> dict_lookup OPERATORS (operator f) = Some ''='' \<Longrightarrow>
   formatFilters_loop ineq acc (f # fs) =
   formatFilters_loop ineq (acc @ [\<lparr>ff_field = fld, ff_operator = ''='', ff_value = filter_value f\<rparr>]) fs"
  by (simp add: Let_def)

lemma loop_step_clash:
  "dict_lookup FIELDS (field f) = Some fld \<Longrightarrow> dict_lookup OPERATORS (operator f) = Some opr \<Longrightarrow>
   opr \<noteq> ''='' \<Longrightarrow> truthy ineq \<Longrightarrow> ineq \<noteq> Some fld \<Longrightarrow>
   formatFilters_loop ineq acc (f # fs) = Inl BadRequestException"
  by (simp add: Let_def)

lemma loop_step_inequality:
  "dict_lookup FIELDS (field f) = Some fld \<Longrightarrow> dict_lookup OPERATORS (operator f) = Some opr \<Longrightarrow>
   opr \<noteq> ''='' \<Longrightarrow> \<not> (truthy ineq \<and> ineq \<noteq> Some fld) \<Longrightarrow>
   formatFilters_loop ineq acc (f # fs) =
   formatFilters_loop (Some fld) (acc @ [\<lparr>ff_field = fld, ff_operator = opr, ff_value = filter_value f\<rparr>]) fs"
  by (auto simp: Let_def)

lemma loop_accepts:
  assumes "ineq = None \<or> (\<exists>x. ineq = Some x \<and> x \<noteq> [])"
  shows "(\<exists>r. formatFilters_loop ineq acc fs = Inr r) \<longleftrightarrow> one_inequality_field ineq fs"
  using assms
proof (induction fs arbitrary: ineq acc)
  case Nil
  then show ?case by (simp add: oif_Nil)
next
  case (Cons f fs)
  show ?case
  proof (cases "whitelisted f")
    case False
    have 1: "formatFilters_loop ineq acc (f # fs) = Inl BadRequestException"
      using False by (rule loop_step_unlisted)
    have 2: "\<not> one_inequality_field ineq (f # fs)" using False by (rule oif_not_whitelisted)
    show ?thesis unfolding 1 using 2 by simp
  next
    case True
    then obtain fld opr where fo: "dict_lookup FIELDS (field f) = Some fld"
        "dict_lookup OPERATORS (operator f) = Some opr"
      by (auto simp: whitelisted_def)
    have ne: "fld \<noteq> []" using fo(1) by (rule FIELDS_nonempty)
    show ?thesis
    proof (cases "opr = ''=''")
      case eq: True
      then have ni: "\<not> is_inequality f" using fo by (simp add: is_inequality_def)
      have 1: "one_inequality_field ineq (f # fs) = one_inequality_field ineq fs"
        using True ni by (rule oif_equality)
      have 2: "formatFilters_loop ineq acc (f # fs) =
        formatFilters_loop ineq (acc @ [\<lparr>ff_field = fld, ff_operator = ''='', ff_value = filter_value f\<rparr>]) fs"
        using fo eq by (simp add: loop_step_equality del: formatFilters_loop.simps)
      show ?thesis unfolding 1 2 using Cons.prems by (rule Cons.IH)
    next
      case False
      then have i: "is_inequality f" using fo by (simp add: is_inequality_def)
      show ?thesis
      proof (cases "truthy ineq \<and> ineq \<noteq> Some fld")
        case T2: True
        then obtain x where x: "ineq = Some x" "x \<noteq> fld"
          by (cases ineq) (simp_all add: truthy_def)
        have 1: "\<not> one_inequality_field ineq (f # fs)"
          using i fo(1) x by (rule oif_clash)
        have 2: "formatFilters_loop ineq acc (f # fs) = Inl BadRequestException"
          using fo False T2 by (simp add: loop_step_clash del: formatFilters_loop.simps)
        show ?thesis unfolding 2 using 1 by simp
      next
        case F2: False
        have ii: "ineq = None \<or> ineq = Some fld"
        proof (cases ineq)
          case None then show ?thesis by simp
        next
          case (Some x)
          then have "x \<noteq> []" using Cons.prems by simp
          then have "truthy ineq" using Some by (simp add: truthy_def)
          then show ?thesis using F2 by simp
        qed
        have 1: "one_inequality_field ineq (f # fs) = one_inequality_field (Some fld) fs"
          using True i fo(1) ii by (rule oif_inequality)
        have 2: "formatFilters_loop ineq acc (f # fs) =
          formatFilters_loop (Some fld) (acc @ [\<lparr>ff_field = fld, ff_operator = opr, ff_value = filter_value f\<rparr>]) fs"
          using fo False F2 by (rule loop_step_inequality)
        have 3: "Some fld = None \<or> (\<exists>x. Some fld = Some x \<and> x \<noteq> [])" using ne by simp
        show ?thesis unfolding 1 2 using 3 by (rule Cons.IH)
      qed
    qed
  qed
qed


lemmas wishlist_defs = addSessionToWishlist_def removeSessionFromWishlist_def
  wishlistRegistration_def getProfileFromUser_def

lemma format2_nonempty: "format2 ANNOUNCEMENT_HEAD s \<noteq> []"
  by (simp add: format2_def ANNOUNCEMENT_HEAD_def)

text \<open>\<^verbatim>\<open>_cacheFeaturedSpeaker\<close> writes one entry or none.\<close>

lemma cacheFeaturedSpeaker_writes:
  assumes "cacheFeaturedSpeaker urlsafe ds mc spKey conferenceKey = (mc', r)"
  shows "mc' = mc \<or> (\<exists>s. mc' = mc(MEMCACHE_FEATURED_SPEAKER_KEY \<mapsto> s))"
  using assms
  by (auto simp: cacheFeaturedSpeaker_def Let_def
      split: option.splits if_splits entity.splits)

section \<open>Registration: seat accounting\<close>






text \<open>
  The test of \<^verbatim>\<open>_conferenceRegistration\<close> is on the string, not on the key: a caller
  who registers with a spelling that the attending list does not hold gets a seat,
  also when the list holds another spelling of the same key.
\<close>

lemma register_other_spelling:
  assumes "urlsafe wsck' = Some c_key" "key_get ds c_key = Some (ConferenceE c)"
      and "wsck' \<notin> set (keysToAttend ds u)" "0 < seatsAvailable c"
  shows "\<exists>ds'. registerForConference urlsafe ds (Some u) wsck' = (ds', Inr True)
            \<and> key_get ds' c_key = Some (ConferenceE (c\<lparr>seatsAvailable := seatsAvailable c - 1\<rparr>))"
proof -
  obtain a i where w: "c_key = ConferenceKey a i" using assms(2) by (cases c_key) auto
  show ?thesis
    using assms unfolding w
    by (auto simp: registration_defs Let_def update_conv' keysToAttend_def
        split: option.splits if_splits)
qed


text \<open>
  C3. A registration or unregistration that ends in an error, whatever the error,
  leaves the datastore as it was: neither the profile of the caller nor the conference
  is modified. Whenever the call is by a user with a string that decodes to the key of
  an existing conference, the seats of the conference and the number of times the
  caller's attending list holds the string change together: their sum is the same
  before and after, so a seat is never taken or given back without the matching change
  of the list.
\<close>

theorem registration_all_or_nothing:
  assumes "conferenceRegistration urlsafe ds cur wsck reg = (ds', r)"
  shows "(r = Inl e \<longrightarrow> ds' = ds)
       \<and> (cur = Some u \<and> urlsafe wsck = Some c_key \<and> key_get ds c_key = Some (ConferenceE c) \<longrightarrow>
            (\<exists>c'. key_get ds' c_key = Some (ConferenceE c')
                \<and> seatsAvailable c' + int (count_list (keysToAttend ds' u) wsck)
                  = seatsAvailable c + int (count_list (keysToAttend ds u) wsck)))"
proof (intro conjI impI)
  assume "r = Inl e"
  then show "ds' = ds" using assms
    by (auto simp: conferenceRegistration_def transactional_def split: prod.splits sum.splits)
next
  assume a: "cur = Some u \<and> urlsafe wsck = Some c_key \<and> key_get ds c_key = Some (ConferenceE c)"
  then obtain a i where w: "c_key = ConferenceKey a i" by (cases c_key) auto
  have rm: "\<And>xs. wsck \<in> set xs \<Longrightarrow>
              1 + int (count_list xs wsck - Suc 0) = int (count_list xs wsck)"
    subgoal for xs using count_list_0_iff[of xs wsck] by (cases "count_list xs wsck") auto
    done
  show "\<exists>c'. key_get ds' c_key = Some (ConferenceE c')
                \<and> seatsAvailable c' + int (count_list (keysToAttend ds' u) wsck)
                  = seatsAvailable c + int (count_list (keysToAttend ds u) wsck)"
    using assms a rm unfolding w
    by (auto simp: conferenceRegistration_def transactional_def keysToAttend_def
        conferenceRegistration_body_def getProfileFromUser_def Let_def update_conv'
        split: option.splits if_splits)
qed

text \<open>
  Bob registers with a string whose key has no entity: the call fails and the
  datastore is the one before, without the profile that the body had written for Bob.
  Bob registers for PyCon: one seat less, one string more.
\<close>

theorem registration_all_or_nothing_witness:
  "conferenceRegistration urlsafe_example ds_pycon (Some bob) ''keynote'' True
     = (ds_pycon, Inl NotFoundException)
   \<and> snd (conferenceRegistration urlsafe_example ds_pycon (Some bob) ''pycon'' True) = Inr True
   \<and> key_get (fst (conferenceRegistration urlsafe_example ds_pycon (Some bob) ''pycon'' True))
        (ConferenceKey ''alice'' 1) = Some (ConferenceE (pycon\<lparr>seatsAvailable := 1\<rparr>))
   \<and> keysToAttend (fst (conferenceRegistration urlsafe_example ds_pycon (Some bob) ''pycon'' True))
        bob = [''pycon'']"
proof -
  obtain d r where
    e: "conferenceRegistration urlsafe_example ds_pycon (Some bob) ''keynote'' True = (d, r)"
    by (cases "conferenceRegistration urlsafe_example ds_pycon (Some bob) ''keynote'' True") auto
  have r: "r = Inl NotFoundException" using e
    by (auto simp: conferenceRegistration_def transactional_def conferenceRegistration_body_def
        getProfileFromUser_def Let_def ds_pycon_def bob_def urlsafe_example_def
        split: prod.splits sum.splits)
  have 1: "d = ds_pycon"
    using registration_all_or_nothing[OF e, of NotFoundException] r by simp
  obtain d2 r2 where
    e2: "conferenceRegistration urlsafe_example ds_pycon (Some bob) ''pycon'' True = (d2, r2)"
    by (cases "conferenceRegistration urlsafe_example ds_pycon (Some bob) ''pycon'' True") auto
  have 2: "r2 = Inr True
   \<and> key_get d2 (ConferenceKey ''alice'' 1) = Some (ConferenceE (pycon\<lparr>seatsAvailable := 1\<rparr>))
   \<and> keysToAttend d2 bob = [''pycon'']"
    using e2
    by (auto simp: conferenceRegistration_def transactional_def keysToAttend_def
        conferenceRegistration_body_def getProfileFromUser_def Let_def ds_pycon_def bob_def
        pycon_def urlsafe_example_def)
  show ?thesis using e r 1 e2 2 by simp
qed

text \<open>
  C4. For a caller and a string that decodes to the key of an existing conference,
  \<^verbatim>\<open>unregisterFromConference\<close> never raises. When the attending list of the caller
  holds the string it returns true, one occurrence of the string is removed from the
  list and the conference has one seat more. When the list does not hold the string it
  returns false, and the list and the conference are as before (the whole datastore
  is, when the caller had a profile). No other entity changes.
\<close>

theorem unregister_true_or_false:
  assumes dec: "urlsafe wsck = Some c_key"
      and conf: "key_get ds c_key = Some (ConferenceE c)"
      and res: "unregisterFromConference urlsafe ds (Some u) wsck = (ds', r)"
  shows "(wsck \<in> set (keysToAttend ds u) \<longrightarrow>
            r = Inr True
          \<and> keysToAttend ds' u = remove1 wsck (keysToAttend ds u)
          \<and> key_get ds' c_key = Some (ConferenceE (c\<lparr>seatsAvailable := seatsAvailable c + 1\<rparr>)))
       \<and> (wsck \<notin> set (keysToAttend ds u) \<longrightarrow>
            r = Inr False
          \<and> keysToAttend ds' u = keysToAttend ds u
          \<and> key_get ds' c_key = Some (ConferenceE c)
          \<and> (profiles ds (user_id u) \<noteq> None \<longrightarrow> ds' = ds))
       \<and> (k \<noteq> c_key \<and> k \<noteq> ProfileKey (user_id u) \<longrightarrow> key_get ds' k = key_get ds k)"
proof -
  obtain a i where w: "c_key = ConferenceKey a i" using conf by (cases c_key) auto
  show ?thesis
    using conf res dec unfolding w
    by (cases k)
       (auto simp: registration_defs Let_def update_conv' keysToAttend_def update_triv
        map_upd_triv
        split: option.splits if_splits intro!: datastore_eqI)
qed

text \<open>
  In \<open>ds_bob\<close> Bob attends PyCon under the string \<^verbatim>\<open>pycon\<close>, and PyCon has one seat
  left. Bob unregisters with this string: true, his list is empty and PyCon has its two
  seats. Bob unregisters with the other spelling, which his list does not hold: false,
  and the datastore is as before.
\<close>

theorem unregister_true_or_false_witness:
  "urlsafe_example ''pycon'' = Some pycon_key
   \<and> key_get ds_bob pycon_key = Some (ConferenceE (pycon\<lparr>seatsAvailable := 1\<rparr>))
   \<and> ''pycon'' \<in> set (keysToAttend ds_bob bob)
   \<and> snd (unregisterFromConference urlsafe_example ds_bob (Some bob) ''pycon'') = Inr True
   \<and> keysToAttend (fst (unregisterFromConference urlsafe_example ds_bob (Some bob) ''pycon'')) bob = []
   \<and> key_get (fst (unregisterFromConference urlsafe_example ds_bob (Some bob) ''pycon'')) pycon_key
       = Some (ConferenceE pycon)
   \<and> urlsafe_example ''pycon='' = Some pycon_key
   \<and> ''pycon='' \<notin> set (keysToAttend ds_bob bob)
   \<and> unregisterFromConference urlsafe_example ds_bob (Some bob) ''pycon='' = (ds_bob, Inr False)"
proof -
  have dec: "urlsafe_example ''pycon'' = Some pycon_key"
    by (simp add: urlsafe_example_def pycon_key_def)
  have dec': "urlsafe_example ''pycon='' = Some pycon_key"
    by (simp add: urlsafe_example_def pycon_key_def)
  have conf: "key_get ds_bob pycon_key = Some (ConferenceE (pycon\<lparr>seatsAvailable := 1\<rparr>))"
    by (simp add: ds_bob_def pycon_key_def)
  obtain d r where res: "unregisterFromConference urlsafe_example ds_bob (Some bob) ''pycon'' = (d, r)"
    by (cases "unregisterFromConference urlsafe_example ds_bob (Some bob) ''pycon''") auto
  obtain d' r' where
    res': "unregisterFromConference urlsafe_example ds_bob (Some bob) ''pycon='' = (d', r')"
    by (cases "unregisterFromConference urlsafe_example ds_bob (Some bob) ''pycon=''") auto
  have kb: "keysToAttend ds_bob bob = [''pycon'']"
    by (simp add: keysToAttend_def ds_bob_def bob_def)
  have pb: "profiles ds_bob (user_id bob) \<noteq> None" by (simp add: ds_bob_def bob_def)
  have s0: "pycon\<lparr>seatsAvailable := 1,
                  seatsAvailable := seatsAvailable (pycon\<lparr>seatsAvailable := 1\<rparr>) + 1\<rparr> = pycon"
    by (simp add: pycon_def)
  show ?thesis
    using unregister_true_or_false[OF dec conf res, of pycon_key]
      unregister_true_or_false[OF dec' conf res', of pycon_key]
      dec dec' conf res res' kb pb s0
    by simp
qed

section \<open>Query filters\<close>

text \<open>
  C5. \<^verbatim>\<open>_formatFilters\<close> returns for a list of filters exactly when every filter has
  a field name in \<^verbatim>\<open>FIELDS\<close> and an operator name in \<^verbatim>\<open>OPERATORS\<close>, and all the
  filters with an operator other than \<^verbatim>\<open>=\<close> are on one field; the filters with \<^verbatim>\<open>=\<close>
  are free. In every other case it raises, and what it raises is the client error
  \<^verbatim>\<open>BadRequestException\<close>: so a name outside the lists is an error, two fields with
  inequalities are an error, and one field with inequalities together with any
  number of equalities is accepted.
\<close>

theorem formatFilters_accepts_iff:
  "((\<exists>r. formatFilters fs = Inr r) \<longleftrightarrow>
      (\<forall>f\<in>set fs. whitelisted f)
      \<and> (\<forall>f\<in>set fs. \<forall>g\<in>set fs. is_inequality f \<and> is_inequality g \<longrightarrow> field f = field g))
   \<and> (formatFilters fs = Inl e \<longrightarrow> e = BadRequestException)"
proof -
  have "(\<exists>r. formatFilters_loop None [] fs = Inr r) \<longleftrightarrow> one_inequality_field None fs"
    by (rule loop_accepts) simp
  moreover have "one_inequality_field None fs \<longleftrightarrow> (\<forall>f\<in>set fs. whitelisted f)
      \<and> (\<forall>f\<in>set fs. \<forall>g\<in>set fs. is_inequality f \<and> is_inequality g \<longrightarrow> field f = field g)"
    unfolding one_inequality_field_def by blast
  moreover have "formatFilters_loop None [] fs = Inl e \<longrightarrow> e = BadRequestException"
    using loop_only_bad_request by blast
  ultimately show ?thesis unfolding formatFilters_def by blast
qed

text \<open>
  A city and two bounds on \<^verbatim>\<open>maxAttendees\<close> are accepted; an inequality on
  \<^verbatim>\<open>maxAttendees\<close> and one on \<^verbatim>\<open>month\<close> are a \<^verbatim>\<open>BadRequestException\<close>.
\<close>

theorem formatFilters_accepts_iff_witness:
  "(\<exists>r. formatFilters filters_one_field = Inr r)
   \<and> formatFilters filters_two_fields = Inl BadRequestException"
proof -
  have w1: "\<forall>f\<in>set filters_one_field. whitelisted f"
    by (simp add: filters_one_field_def whitelisted_def dict_lookup_def FIELDS_def OPERATORS_def)
  have i1: "\<forall>f\<in>set filters_one_field. \<forall>g\<in>set filters_one_field.
              is_inequality f \<and> is_inequality g \<longrightarrow> field f = field g"
    by (simp add: filters_one_field_def is_inequality_def dict_lookup_def OPERATORS_def)
  have 1: "\<exists>r. formatFilters filters_one_field = Inr r"
    using formatFilters_accepts_iff[of filters_one_field BadRequestException] w1 i1 by blast
  have i2: "\<not> (\<forall>f\<in>set filters_two_fields. \<forall>g\<in>set filters_two_fields.
              is_inequality f \<and> is_inequality g \<longrightarrow> field f = field g)"
    by (simp add: filters_two_fields_def is_inequality_def dict_lookup_def OPERATORS_def)
  have n2: "\<not> (\<exists>r. formatFilters filters_two_fields = Inr r)"
    using formatFilters_accepts_iff[of filters_two_fields BadRequestException] i2 by blast
  then obtain e where e: "formatFilters filters_two_fields = Inl e"
    by (cases "formatFilters filters_two_fields") auto
  then have "e = BadRequestException"
    using formatFilters_accepts_iff[of filters_two_fields e] by blast
  then show ?thesis using 1 e by simp
qed

section \<open>Creating a conference: the seats\<close>




section \<open>Wishlist\<close>

text \<open>
  C7. Take a caller and a string that decodes to the key of an existing session.
  \<^verbatim>\<open>addSessionToWishlist\<close> raises \<^verbatim>\<open>ConflictException\<close> when the wishlist of the
  caller holds the string, and changes nothing; otherwise it returns true and the
  string is appended, so that adding it again is a conflict.
  \<^verbatim>\<open>removeSessionFromWishlist\<close> raises \<^verbatim>\<open>ConflictException\<close> when the wishlist does
  not hold the string, and the wishlist is as before; otherwise it returns true and
  one occurrence of the string is removed. Removing what is absent is an error, where
  unregistering what is absent returns false. No entity other than the profile of the
  caller changes.
\<close>

theorem wishlist_conflicts:
  assumes dec: "urlsafe sessionKey = Some s_key"
      and ex: "key_get ds s_key = Some (SessionE s)"
      and add: "addSessionToWishlist urlsafe ds (Some u) sessionKey = (ds', r)"
      and rem: "removeSessionFromWishlist urlsafe ds (Some u) sessionKey = (ds'', r')"
  shows "(sessionKey \<in> set (wishlist ds u) \<longrightarrow>
            r = Inl ConflictException \<and> ds' = ds
          \<and> r' = Inr True \<and> wishlist ds'' u = remove1 sessionKey (wishlist ds u))
       \<and> (sessionKey \<notin> set (wishlist ds u) \<longrightarrow>
            r = Inr True \<and> wishlist ds' u = wishlist ds u @ [sessionKey]
          \<and> addSessionToWishlist urlsafe ds' (Some u) sessionKey = (ds', Inl ConflictException)
          \<and> r' = Inl ConflictException \<and> wishlist ds'' u = wishlist ds u)
       \<and> (k \<noteq> ProfileKey (user_id u) \<longrightarrow>
            key_get ds' k = key_get ds k \<and> key_get ds'' k = key_get ds k)"
proof -
  obtain a i j where w: "s_key = SessionKey a i j" using ex by (cases s_key) auto
  show ?thesis
    using ex add rem dec unfolding w
    by (cases k)
       (auto simp: wishlist_defs Let_def wishlist_def split: option.splits if_splits)
qed

text \<open>
  Bob, whose wishlist is empty, adds the keynote: true. He adds it again: conflict. He
  removes it: true, and the wishlist is empty. Removing it from the empty wishlist is
  a conflict.
\<close>

theorem wishlist_conflicts_witness:
  "urlsafe_example ''keynote'' = Some (SessionKey ''alice'' 1 1)
   \<and> key_get ds_keynote (SessionKey ''alice'' 1 1) = Some (SessionE keynote)
   \<and> wishlist ds_keynote bob = []
   \<and> snd (addSessionToWishlist urlsafe_example ds_keynote (Some bob) ''keynote'') = Inr True
   \<and> wishlist (fst (addSessionToWishlist urlsafe_example ds_keynote (Some bob) ''keynote'')) bob
       = [''keynote'']
   \<and> snd (addSessionToWishlist urlsafe_example
            (fst (addSessionToWishlist urlsafe_example ds_keynote (Some bob) ''keynote''))
            (Some bob) ''keynote'') = Inl ConflictException
   \<and> snd (removeSessionFromWishlist urlsafe_example ds_keynote (Some bob) ''keynote'')
       = Inl ConflictException
   \<and> snd (removeSessionFromWishlist urlsafe_example
            (fst (addSessionToWishlist urlsafe_example ds_keynote (Some bob) ''keynote''))
            (Some bob) ''keynote'') = Inr True
   \<and> wishlist (fst (removeSessionFromWishlist urlsafe_example
            (fst (addSessionToWishlist urlsafe_example ds_keynote (Some bob) ''keynote''))
            (Some bob) ''keynote'')) bob = []"
proof -
  have dec: "urlsafe_example ''keynote'' = Some (SessionKey ''alice'' 1 1)"
    by (simp add: urlsafe_example_def)
  have ex: "key_get ds_keynote (SessionKey ''alice'' 1 1) = Some (SessionE keynote)"
    by (simp add: ds_keynote_def)
  have w0: "wishlist ds_keynote bob = []" by (simp add: wishlist_def ds_keynote_def)
  obtain d r where add: "addSessionToWishlist urlsafe_example ds_keynote (Some bob) ''keynote'' = (d, r)"
    by (cases "addSessionToWishlist urlsafe_example ds_keynote (Some bob) ''keynote''") auto
  obtain d' r' where
    rem: "removeSessionFromWishlist urlsafe_example ds_keynote (Some bob) ''keynote'' = (d', r')"
    by (cases "removeSessionFromWishlist urlsafe_example ds_keynote (Some bob) ''keynote''") auto
  note first = wishlist_conflicts[OF dec ex add rem, of "SessionKey ''alice'' 1 1"]
  have ex2: "key_get d (SessionKey ''alice'' 1 1) = Some (SessionE keynote)"
    using first ex by simp
  have w1: "wishlist d bob = [''keynote'']" using first w0 by simp
  obtain e q where add2: "addSessionToWishlist urlsafe_example d (Some bob) ''keynote'' = (e, q)"
    by (cases "addSessionToWishlist urlsafe_example d (Some bob) ''keynote''") auto
  obtain e' q' where
    rem2: "removeSessionFromWishlist urlsafe_example d (Some bob) ''keynote'' = (e', q')"
    by (cases "removeSessionFromWishlist urlsafe_example d (Some bob) ''keynote''") auto
  note second = wishlist_conflicts[OF dec ex2 add2 rem2, of "SessionKey ''alice'' 1 1"]
  show ?thesis
    using first second dec ex w0 w1 add rem add2 rem2 by simp
qed

section \<open>The featured speaker\<close>



section \<open>The announcement\<close>

text \<open>
  C9. \<^verbatim>\<open>_cacheAnnouncement\<close>, for whatever order the datastore returns the rows of
  the query in. The names it lists are exactly the names of the conferences with
  \<open>0 < seatsAvailable \<le> 5\<close>; a conference without a seat is not among them. When
  there is such a conference the announcement, the head
  \<^verbatim>\<open>Last chance to attend! ...\<close> and the names joined by commas, is stored under
  \<^verbatim>\<open>RECENT_ANNOUNCEMENTS\<close> and \<^verbatim>\<open>getAnnouncement\<close> returns it. When there is none the
  entry is deleted, no empty string is stored, and \<^verbatim>\<open>getAnnouncement\<close> returns the
  empty string. No other entry of the cache changes.
\<close>

theorem announcement_recompute:
  assumes order: "set (fetch (nearly_sold_out ds)) = set (nearly_sold_out ds)"
      and run: "cacheAnnouncement fetch ds mc = (mc', a)"
  shows "(nearly_sold_out ds \<noteq> [] \<longrightarrow>
            a = format2 ANNOUNCEMENT_HEAD (join '', '' (map name (fetch (nearly_sold_out ds))))
          \<and> mc' MEMCACHE_ANNOUNCEMENTS_KEY = Some a
          \<and> getAnnouncement mc' = a)
       \<and> set (map name (fetch (nearly_sold_out ds)))
           = name ` {c \<in> snd ` set (conferences ds). 0 < seatsAvailable c \<and> seatsAvailable c \<le> 5}
       \<and> (nearly_sold_out ds = [] \<longrightarrow>
            a = [] \<and> mc' MEMCACHE_ANNOUNCEMENTS_KEY = None \<and> getAnnouncement mc' = [])
       \<and> (\<forall>k. k \<noteq> MEMCACHE_ANNOUNCEMENTS_KEY \<longrightarrow> mc' k = mc k)"
proof -
  have e: "fetch (nearly_sold_out ds) = [] \<longleftrightarrow> nearly_sold_out ds = []"
    using order by (metis set_empty)
  have s: "set (map name (fetch (nearly_sold_out ds)))
           = name ` {c \<in> snd ` set (conferences ds). 0 < seatsAvailable c \<and> seatsAvailable c \<le> 5}"
    unfolding set_map order by (auto simp: nearly_sold_out_def)
  show ?thesis
  proof (cases "nearly_sold_out ds = []")
    case True
    then show ?thesis using run e s
      by (auto simp: cacheAnnouncement_def Let_def getAnnouncement_def)
  next
    case False
    then show ?thesis using run e s format2_nonempty
      by (auto simp: cacheAnnouncement_def Let_def getAnnouncement_def)
  qed
qed

text \<open>
  Conferences A, B, C, D and E have two, five, no, three and forty seats: the
  announcement lists A, D and B (in the order of the seats), not C and not E. With C and
  E alone the entry that the cache had is deleted.
\<close>

theorem announcement_recompute_witness:
  "cacheAnnouncement (sort_key seatsAvailable) ds_announce Map.empty
     = ([MEMCACHE_ANNOUNCEMENTS_KEY \<mapsto>
          ''Last chance to attend! The following conferences are nearly sold out: A, D, B''],
        ''Last chance to attend! The following conferences are nearly sold out: A, D, B'')
   \<and> cacheAnnouncement (sort_key seatsAvailable) ds_sold_out
        [MEMCACHE_ANNOUNCEMENTS_KEY \<mapsto> ''before''] = (Map.empty, [])
   \<and> getAnnouncement Map.empty = []"
proof -
  let ?f = "sort_key seatsAvailable"
  have o1: "set (?f (nearly_sold_out ds_announce)) = set (nearly_sold_out ds_announce)" by simp
  have o2: "set (?f (nearly_sold_out ds_sold_out)) = set (nearly_sold_out ds_sold_out)" by simp
  have n1: "?f (nearly_sold_out ds_announce)
              = [conf_seats ''A'' 2, conf_seats ''D'' 3, conf_seats ''B'' 5]"
    by (simp add: nearly_sold_out_def ds_announce_def conf_seats_def)
  have n2: "nearly_sold_out ds_sold_out = []"
    by (simp add: nearly_sold_out_def ds_sold_out_def conf_seats_def)
  have t: "format2 ANNOUNCEMENT_HEAD (join '', '' (map name
              [conf_seats ''A'' 2, conf_seats ''D'' 3, conf_seats ''B'' 5]))
           = ''Last chance to attend! The following conferences are nearly sold out: A, D, B''"
    by (simp add: format2_def ANNOUNCEMENT_HEAD_def conf_seats_def)
  obtain m1 a1 where r1: "cacheAnnouncement ?f ds_announce Map.empty = (m1, a1)"
    by (cases "cacheAnnouncement ?f ds_announce Map.empty") auto
  obtain m2 a2 where
    r2: "cacheAnnouncement ?f ds_sold_out [MEMCACHE_ANNOUNCEMENTS_KEY \<mapsto> ''before''] = (m2, a2)"
    by (cases "cacheAnnouncement ?f ds_sold_out [MEMCACHE_ANNOUNCEMENTS_KEY \<mapsto> ''before'']") auto
  have ne: "nearly_sold_out ds_announce \<noteq> []"
    by (simp add: nearly_sold_out_def ds_announce_def conf_seats_def)
  note A = announcement_recompute[OF o1 r1]
  note B = announcement_recompute[OF o2 r2]
  have a1: "a1 = ''Last chance to attend! The following conferences are nearly sold out: A, D, B''"
    using A ne n1 t by simp
  have m1: "m1 = [MEMCACHE_ANNOUNCEMENTS_KEY \<mapsto> a1]"
  proof (rule ext)
    fix k show "m1 k = [MEMCACHE_ANNOUNCEMENTS_KEY \<mapsto> a1] k"
      using A ne by (cases "k = MEMCACHE_ANNOUNCEMENTS_KEY") auto
  qed
  have a2: "a2 = []" using B n2 by simp
  have m2: "m2 = Map.empty"
  proof (rule ext)
    fix k show "m2 k = Map.empty k"
      using B n2 by (cases "k = MEMCACHE_ANNOUNCEMENTS_KEY") auto
  qed
  have g: "getAnnouncement Map.empty = []" by (simp add: getAnnouncement_def)
  show ?thesis using r1 r2 a1 m1 a2 m2 g by simp
qed

text \<open>
  C10. The featured speaker has one entry in the cache, \<^verbatim>\<open>FEATURED_SPEAKER\<close>, for
  all conferences. Take two recomputes, for any two conference strings and on any
  datastores, the second with more than one session of its speaker. Whatever the
  first did, after the second the entry is the text of the second speaker and
  \<^verbatim>\<open>getFeaturedSpeaker\<close> returns it: the text that the first had stored is gone. Both
  leave every other entry of the cache as it was.
\<close>

theorem featured_speaker_single_entry:
  assumes first: "cacheFeaturedSpeaker urlsafe ds mc spKey1 conferenceKey1 = (mc1, r1)"
      and second: "cacheFeaturedSpeaker urlsafe ds' mc1 spKey2 conferenceKey2 = (mc2, r2)"
      and dec: "urlsafe conferenceKey2 = Some confKey2"
      and many: "1 < session_count ds' confKey2 spKey2"
      and sp: "urlsafe spKey2 = Some sKey2" "key_get ds' sKey2 = Some (SpeakerE sp2)"
  shows "mc2 MEMCACHE_FEATURED_SPEAKER_KEY
           = Some (format2 FEATURED_SPEAKER_HEAD (str_of (speaker_name sp2)))
       \<and> getFeaturedSpeaker mc2 = format2 FEATURED_SPEAKER_HEAD (str_of (speaker_name sp2))
       \<and> (\<forall>k. k \<noteq> MEMCACHE_FEATURED_SPEAKER_KEY \<longrightarrow> mc1 k = mc k \<and> mc2 k = mc k)"
proof -
  have 1: "mc1 = mc \<or> (\<exists>s. mc1 = mc(MEMCACHE_FEATURED_SPEAKER_KEY \<mapsto> s))"
    using first by (rule cacheFeaturedSpeaker_writes)
  have 2: "mc2 = mc1(MEMCACHE_FEATURED_SPEAKER_KEY \<mapsto>
                       format2 FEATURED_SPEAKER_HEAD (str_of (speaker_name sp2)))"
    using second dec many sp by (simp add: cacheFeaturedSpeaker_def Let_def)
  have 3: "format2 FEATURED_SPEAKER_HEAD (str_of (speaker_name sp2)) \<noteq> []"
    by (simp add: format2_def FEATURED_SPEAKER_HEAD_def)
  show ?thesis using 1 2 3 by (auto simp: getFeaturedSpeaker_def)
qed

text \<open>
  The recompute for Ada at PyCon stores her text; the recompute for Grace at JSConf
  replaces it, and \<^verbatim>\<open>getFeaturedSpeaker\<close> returns the text of Grace.
\<close>

theorem featured_speaker_single_entry_witness:
  "fst (cacheFeaturedSpeaker urlsafe_example ds_two_conferences Map.empty ''ada'' ''pycon'')
     = [MEMCACHE_FEATURED_SPEAKER_KEY \<mapsto> ''The featured speaker for this conference is:  Ada'']
   \<and> getFeaturedSpeaker
        (fst (cacheFeaturedSpeaker urlsafe_example ds_two_conferences
               (fst (cacheFeaturedSpeaker urlsafe_example ds_two_conferences Map.empty
                       ''ada'' ''pycon''))
               ''grace'' ''jsconf''))
       = ''The featured speaker for this conference is:  Grace''"
proof -
  obtain m1 r1 where
    first: "cacheFeaturedSpeaker urlsafe_example ds_two_conferences Map.empty ''ada'' ''pycon''
              = (m1, r1)"
    by (cases "cacheFeaturedSpeaker urlsafe_example ds_two_conferences Map.empty ''ada'' ''pycon''")
       auto
  obtain m2 r2 where
    second: "cacheFeaturedSpeaker urlsafe_example ds_two_conferences m1 ''grace'' ''jsconf''
              = (m2, r2)"
    by (cases "cacheFeaturedSpeaker urlsafe_example ds_two_conferences m1 ''grace'' ''jsconf''")
       auto
  have dec: "urlsafe_example ''jsconf'' = Some (ConferenceKey ''alice'' 2)"
    by (simp add: urlsafe_example_def)
  have many: "1 < session_count ds_two_conferences (ConferenceKey ''alice'' 2) ''grace''"
    by (simp add: session_count_def ds_two_conferences_def keynote_def workshop_def talk_def)
  have sp: "urlsafe_example ''grace'' = Some (SpeakerKey 2)"
    "key_get ds_two_conferences (SpeakerKey 2) = Some (SpeakerE grace)"
    by (simp_all add: urlsafe_example_def ds_two_conferences_def)
  have m1: "m1 = [MEMCACHE_FEATURED_SPEAKER_KEY \<mapsto>
                   ''The featured speaker for this conference is:  Ada'']"
    using first
    by (simp add: cacheFeaturedSpeaker_def Let_def urlsafe_example_def session_count_def
        ds_two_conferences_def keynote_def workshop_def talk_def ada_def format2_def
        FEATURED_SPEAKER_HEAD_def str_of_def)
  have s: "format2 FEATURED_SPEAKER_HEAD (str_of (speaker_name grace))
            = ''The featured speaker for this conference is:  Grace''"
    by (simp add: format2_def FEATURED_SPEAKER_HEAD_def str_of_def grace_def)
  show ?thesis
    using featured_speaker_single_entry[OF first second dec many sp] first second m1 s
    by simp
qed

end
